theory Spec2Isabelle
  imports Main "HOL-Library.Word"
begin

section \<open>SPIR-V builder of xenia: data model\<close>

text \<open>
  The development embeds \<^verbatim>\<open>src/xenia/gpu/spirv_builder.cc\<close>: the N-ary emission
  operation \<^verbatim>\<open>createQuadOp\<close>, the no-contraction operations, the three builtin calls and
  the structured-if helper \<^verbatim>\<open>SpirvBuilder::IfBuilder\<close>.

  \<^verbatim>\<open>spv::Id\<close> is an unsigned 32-bit integer, so ids are 32-bit words and the unique-id
  counter wraps around. Blocks and functions are objects on the C++ heap that the code
  reaches through pointers and references; the model keeps them in an explicit store,
  a function from addresses to objects together with the next address \<^verbatim>\<open>new\<close> hands out.
\<close>

type_synonym Id = "32 word"

type_synonym BlockRef = nat

type_synonym FunctionRef = nat

text \<open>
  A C++ \<^verbatim>\<open>int\<close> is kept as its 32 bits (\<open>sint\<close> reads the signed value); the
  conversion to \<^verbatim>\<open>unsigned\<close> keeps the bits.
\<close>

type_synonym int32 = "32 word"

text \<open>The opcodes the source names, and every other opcode a caller may pass.\<close>

datatype Op =
    OpExtInst
  | OpPhi
  | OpSelectionMerge
  | OpBranch
  | OpBranchConditional
  | OtherOp nat

datatype Decoration = DecorationNoContraction | OtherDecoration nat

datatype Operand = IdOperand Id | ImmediateOperand "32 word"

text \<open>
  Modelled from the spec: \<^verbatim>\<open>spv::Instruction\<close> is declared outside the source files at
  hand. Section 3 of the specification: an opcode, an optional result type, an optional
  result id and an ordered operand list of id operands and immediate operands.
\<close>

record Instruction =
  opCode :: Op
  typeId :: "Id option"
  resultId :: "Id option"
  operands :: "Operand list"

text \<open>
  Modelled from the spec: \<^verbatim>\<open>spv::Block\<close> (section 3): an identity, the owning function,
  the ordered instructions and the predecessor blocks.
\<close>

record Block =
  block_id :: Id
  parent :: FunctionRef
  instructions :: "Instruction list"
  predecessors :: "BlockRef list"

text \<open>Modelled from the spec: \<^verbatim>\<open>spv::Function\<close> (section 3), its blocks in attachment order.\<close>

record Function =
  blocks :: "BlockRef list"

text \<open>
  Modelled from the spec: the constant-expression record of the constant-folding path
  (section 4.1): the same opcode and operands as the instruction it stands for, a result
  id and a type, and no block membership.
\<close>

record SpecConstantOp =
  sc_resultId :: Id
  sc_typeId :: Id
  sc_opCode :: Op
  sc_operands :: "Id list"
  sc_literals :: "32 word list"

text \<open>
  The emitter state (section 3 of the specification: the id counter, the build point and
  the spec-constant mode), with the collaborators of section 6 (the type-id table and the
  decorations) and the store of heap objects.
\<close>

record SpirvBuilder =
  uniqueId :: Id
  buildPoint :: BlockRef
  generatingOpCodeForSpecConst :: bool
  constantsTypesGlobals :: "SpecConstantOp list"
  decorations :: "(Id \<times> Decoration) list"
  typeTable :: "Id \<Rightarrow> Id"
  heap_blocks :: "BlockRef \<Rightarrow> Block"
  heap_next :: BlockRef
  heap_functions :: "FunctionRef \<Rightarrow> Function"

section \<open>Primitives of the underlying builder\<close>

text \<open>
  Modelled from the spec: \<^verbatim>\<open>getUniqueId\<close> is inherited from \<^verbatim>\<open>spv::Builder\<close>, which is
  not among the source files. The specification calls it the allocation of a fresh id from
  the counter \<^verbatim>\<open>next_id\<close>: the counter is incremented and its new value is the id.
\<close>

definition getUniqueId :: "SpirvBuilder \<Rightarrow> Id \<times> SpirvBuilder" where
  "getUniqueId builder =
     (uniqueId builder + 1, builder\<lparr>uniqueId := uniqueId builder + 1\<rparr>)"

text \<open>
  Modelled from the spec: the two constructors of \<^verbatim>\<open>spv::Instruction\<close>, with and without
  a result, and its operand appenders and result accessor. \<^verbatim>\<open>NoResult\<close> is the id 0.
\<close>

definition Instruction_result :: "Id \<Rightarrow> Id \<Rightarrow> Op \<Rightarrow> Instruction" where
  "Instruction_result result_id type_id op_code =
     \<lparr>opCode = op_code, typeId = Some type_id, resultId = Some result_id, operands = []\<rparr>"

definition Instruction_plain :: "Op \<Rightarrow> Instruction" where
  "Instruction_plain op_code =
     \<lparr>opCode = op_code, typeId = None, resultId = None, operands = []\<rparr>"

definition addIdOperand :: "Id \<Rightarrow> Instruction \<Rightarrow> Instruction" where
  "addIdOperand x i = i\<lparr>operands := operands i @ [IdOperand x]\<rparr>"

definition addImmediateOperand :: "32 word \<Rightarrow> Instruction \<Rightarrow> Instruction" where
  "addImmediateOperand x i = i\<lparr>operands := operands i @ [ImmediateOperand x]\<rparr>"

definition getResultId :: "Instruction \<Rightarrow> Id" where
  "getResultId i = (case resultId i of Some r \<Rightarrow> r | None \<Rightarrow> 0)"

text \<open>
  Modelled from the spec: \<^verbatim>\<open>Block::addInstruction\<close>, \<^verbatim>\<open>Block::getId\<close> and
  \<^verbatim>\<open>Block::addPredecessor\<close> on the block at an address of the store.
\<close>

definition addInstruction :: "BlockRef \<Rightarrow> Instruction \<Rightarrow> SpirvBuilder \<Rightarrow> SpirvBuilder" where
  "addInstruction b i builder =
     builder\<lparr>heap_blocks := (heap_blocks builder)
       (b := (heap_blocks builder b)
          \<lparr>instructions := instructions (heap_blocks builder b) @ [i]\<rparr>)\<rparr>"

definition getId :: "SpirvBuilder \<Rightarrow> BlockRef \<Rightarrow> Id" where
  "getId builder b = block_id (heap_blocks builder b)"

definition addPredecessor :: "BlockRef \<Rightarrow> BlockRef \<Rightarrow> SpirvBuilder \<Rightarrow> SpirvBuilder" where
  "addPredecessor b pred builder =
     builder\<lparr>heap_blocks := (heap_blocks builder)
       (b := (heap_blocks builder b)
          \<lparr>predecessors := predecessors (heap_blocks builder b) @ [pred]\<rparr>)\<rparr>"

text \<open>
  Modelled from the spec: \<^verbatim>\<open>createSpecConstantOp\<close> of \<^verbatim>\<open>spv::Builder\<close>. Section 4.1:
  it builds the constant-expression record with the same opcode and operands, under a
  fresh id, puts it into the constant-expression table and into no block, and returns
  the record's id.
\<close>

definition createSpecConstantOp ::
  "Op \<Rightarrow> Id \<Rightarrow> Id list \<Rightarrow> 32 word list \<Rightarrow> SpirvBuilder \<Rightarrow> Id \<times> SpirvBuilder" where
  "createSpecConstantOp op_code type_id ops literals builder =
     (let (result, b1) = getUniqueId builder;
          rec = \<lparr>sc_resultId = result, sc_typeId = type_id, sc_opCode = op_code,
                 sc_operands = ops, sc_literals = literals\<rparr>
      in (result, b1\<lparr>constantsTypesGlobals := constantsTypesGlobals b1 @ [rec]\<rparr>))"

text \<open>
  Modelled from the spec: \<^verbatim>\<open>addDecoration\<close>, the decoration facility of section 6,
  records a decoration for an id.
\<close>

definition addDecoration :: "Id \<Rightarrow> Decoration \<Rightarrow> SpirvBuilder \<Rightarrow> SpirvBuilder" where
  "addDecoration target dec builder =
     builder\<lparr>decorations := decorations builder @ [(target, dec)]\<rparr>"

text \<open>
  Modelled from the spec: \<^verbatim>\<open>getTypeId\<close>, the lookup in the type-id table of section 6.
\<close>

definition getTypeId :: "SpirvBuilder \<Rightarrow> Id \<Rightarrow> Id" where
  "getTypeId builder x = typeTable builder x"

section \<open>The emission operations of the source\<close>

text \<open>\<^verbatim>\<open>SpirvBuilder::createQuadOp\<close>, lines 21 to 42.\<close>

definition createQuadOp ::
  "Op \<Rightarrow> Id \<Rightarrow> Id \<Rightarrow> Id \<Rightarrow> Id \<Rightarrow> Id \<Rightarrow> SpirvBuilder \<Rightarrow> Id \<times> SpirvBuilder" where
  "createQuadOp op_code type_id operand1 operand2 operand3 operand4 builder =
     (if generatingOpCodeForSpecConst builder then
        createSpecConstantOp op_code type_id [operand1, operand2, operand3, operand4] []
          builder
      else
        let (uid, b1) = getUniqueId builder;
            op = Instruction_result uid type_id op_code;
            op = addIdOperand operand1 op;
            op = addIdOperand operand2 op;
            op = addIdOperand operand3 op;
            op = addIdOperand operand4 op;
            result = getResultId op
        in (result, addInstruction (buildPoint b1) op b1))"

text \<open>
  Modelled from the spec: \<^verbatim>\<open>createUnaryOp\<close> and \<^verbatim>\<open>createBinOp\<close> of \<^verbatim>\<open>spv::Builder\<close>,
  which the no-contraction operations call. Section 4.1 gives one contract for the
  N-ary emission at every arity from 1 to 4, so they follow \<^verbatim>\<open>createQuadOp\<close>.
\<close>

definition createUnaryOp :: "Op \<Rightarrow> Id \<Rightarrow> Id \<Rightarrow> SpirvBuilder \<Rightarrow> Id \<times> SpirvBuilder" where
  "createUnaryOp op_code type_id operand builder =
     (if generatingOpCodeForSpecConst builder then
        createSpecConstantOp op_code type_id [operand] [] builder
      else
        let (uid, b1) = getUniqueId builder;
            op = Instruction_result uid type_id op_code;
            op = addIdOperand operand op;
            result = getResultId op
        in (result, addInstruction (buildPoint b1) op b1))"

definition createBinOp :: "Op \<Rightarrow> Id \<Rightarrow> Id \<Rightarrow> Id \<Rightarrow> SpirvBuilder \<Rightarrow> Id \<times> SpirvBuilder" where
  "createBinOp op_code type_id operand1 operand2 builder =
     (if generatingOpCodeForSpecConst builder then
        createSpecConstantOp op_code type_id [operand1, operand2] [] builder
      else
        let (uid, b1) = getUniqueId builder;
            op = Instruction_result uid type_id op_code;
            op = addIdOperand operand1 op;
            op = addIdOperand operand2 op;
            result = getResultId op
        in (result, addInstruction (buildPoint b1) op b1))"

text \<open>\<^verbatim>\<open>SpirvBuilder::createNoContractionUnaryOp\<close>, lines 44 to 50.\<close>

definition createNoContractionUnaryOp ::
  "Op \<Rightarrow> Id \<Rightarrow> Id \<Rightarrow> SpirvBuilder \<Rightarrow> Id \<times> SpirvBuilder" where
  "createNoContractionUnaryOp op_code type_id operand builder =
     (let (result, b1) = createUnaryOp op_code type_id operand builder
      in (result, addDecoration result DecorationNoContraction b1))"

text \<open>\<^verbatim>\<open>SpirvBuilder::createNoContractionBinOp\<close>, lines 52 to 58.\<close>

definition createNoContractionBinOp ::
  "Op \<Rightarrow> Id \<Rightarrow> Id \<Rightarrow> Id \<Rightarrow> SpirvBuilder \<Rightarrow> Id \<times> SpirvBuilder" where
  "createNoContractionBinOp op_code type_id operand1 operand2 builder =
     (let (result, b1) = createBinOp op_code type_id operand1 operand2 builder
      in (result, addDecoration result DecorationNoContraction b1))"

text \<open>
  \<^verbatim>\<open>SpirvBuilder::createUnaryBuiltinCall\<close>, lines 60 to 72. The entry point is a C++
  \<^verbatim>\<open>int\<close>; \<^verbatim>\<open>addImmediateOperand\<close> takes an \<^verbatim>\<open>unsigned\<close>, and the conversion
  keeps the 32 bits.
\<close>

definition createUnaryBuiltinCall ::
  "Id \<Rightarrow> Id \<Rightarrow> int32 \<Rightarrow> Id \<Rightarrow> SpirvBuilder \<Rightarrow> Id \<times> SpirvBuilder" where
  "createUnaryBuiltinCall result_type builtins entry_point operand builder =
     (let (uid, b1) = getUniqueId builder;
          instruction = Instruction_result uid result_type OpExtInst;
          instruction = addIdOperand builtins instruction;
          instruction = addImmediateOperand entry_point instruction;
          instruction = addIdOperand operand instruction;
          result = getResultId instruction
      in (result, addInstruction (buildPoint b1) instruction b1))"

text \<open>\<^verbatim>\<open>SpirvBuilder::createBinBuiltinCall\<close>, lines 74 to 87.\<close>

definition createBinBuiltinCall ::
  "Id \<Rightarrow> Id \<Rightarrow> int32 \<Rightarrow> Id \<Rightarrow> Id \<Rightarrow> SpirvBuilder \<Rightarrow> Id \<times> SpirvBuilder" where
  "createBinBuiltinCall result_type builtins entry_point operand1 operand2 builder =
     (let (uid, b1) = getUniqueId builder;
          instruction = Instruction_result uid result_type OpExtInst;
          instruction = addIdOperand builtins instruction;
          instruction = addImmediateOperand entry_point instruction;
          instruction = addIdOperand operand1 instruction;
          instruction = addIdOperand operand2 instruction;
          result = getResultId instruction
      in (result, addInstruction (buildPoint b1) instruction b1))"

text \<open>\<^verbatim>\<open>SpirvBuilder::createTriBuiltinCall\<close>, lines 89 to 104.\<close>

definition createTriBuiltinCall ::
  "Id \<Rightarrow> Id \<Rightarrow> int32 \<Rightarrow> Id \<Rightarrow> Id \<Rightarrow> Id \<Rightarrow> SpirvBuilder \<Rightarrow> Id \<times> SpirvBuilder" where
  "createTriBuiltinCall result_type builtins entry_point operand1 operand2 operand3 builder =
     (let (uid, b1) = getUniqueId builder;
          instruction = Instruction_result uid result_type OpExtInst;
          instruction = addIdOperand builtins instruction;
          instruction = addImmediateOperand entry_point instruction;
          instruction = addIdOperand operand1 instruction;
          instruction = addIdOperand operand2 instruction;
          instruction = addIdOperand operand3 instruction;
          result = getResultId instruction
      in (result, addInstruction (buildPoint b1) instruction b1))"

section \<open>Blocks, functions and control-flow primitives\<close>

text \<open>
  Modelled from the spec: \<^verbatim>\<open>new spv::Block(id, function)\<close>. Section 3: a block is
  created detached from its function, with its identity and its owner; it has no
  instruction and no predecessor yet. The store hands out the next free address.
\<close>

definition Block_new :: "Id \<Rightarrow> FunctionRef \<Rightarrow> SpirvBuilder \<Rightarrow> BlockRef \<times> SpirvBuilder" where
  "Block_new new_id fn builder =
     (heap_next builder,
      builder\<lparr>heap_blocks := (heap_blocks builder)
          (heap_next builder :=
             \<lparr>block_id = new_id, parent = fn, instructions = [], predecessors = []\<rparr>),
        heap_next := heap_next builder + 1\<rparr>)"

text \<open>
  Modelled from the spec: \<^verbatim>\<open>Function::addBlock\<close> attaches a block at the end of the
  function's block order (section 3: growing only).
\<close>

definition addBlock :: "FunctionRef \<Rightarrow> BlockRef \<Rightarrow> SpirvBuilder \<Rightarrow> SpirvBuilder" where
  "addBlock fn b builder =
     builder\<lparr>heap_functions := (heap_functions builder)
       (fn := (heap_functions builder fn)\<lparr>blocks := blocks (heap_functions builder fn) @ [b]\<rparr>)\<rparr>"

text \<open>Modelled from the spec: the build point cursor is read and redirected.\<close>

definition getBuildPoint :: "SpirvBuilder \<Rightarrow> BlockRef" where
  "getBuildPoint builder = buildPoint builder"

definition setBuildPoint :: "BlockRef \<Rightarrow> SpirvBuilder \<Rightarrow> SpirvBuilder" where
  "setBuildPoint b builder = builder\<lparr>buildPoint := b\<rparr>"

text \<open>
  Modelled from the spec: \<^verbatim>\<open>createBranch\<close> of \<^verbatim>\<open>spv::Builder\<close>. Section 4.2: it emits
  an unconditional branch from the current build point to the given block; section 3:
  branch emission populates the predecessors of the target.
\<close>

definition createBranch :: "BlockRef \<Rightarrow> SpirvBuilder \<Rightarrow> SpirvBuilder" where
  "createBranch block builder =
     (let branch = Instruction_plain OpBranch;
          branch = addIdOperand (getId builder block) branch;
          b1 = addInstruction (buildPoint builder) branch builder
      in addPredecessor block (buildPoint b1) b1)"

text \<open>
  Modelled from the spec: \<^verbatim>\<open>createSelectionMerge\<close> of \<^verbatim>\<open>spv::Builder\<close>. Section 4.2:
  a selection-merge instruction naming the merge block and the control flags, emitted
  at the build point.
\<close>

definition createSelectionMerge :: "BlockRef \<Rightarrow> 32 word \<Rightarrow> SpirvBuilder \<Rightarrow> SpirvBuilder" where
  "createSelectionMerge mergeBlock control builder =
     (let merge = Instruction_plain OpSelectionMerge;
          merge = addIdOperand (getId builder mergeBlock) merge;
          merge = addImmediateOperand control merge
      in addInstruction (buildPoint builder) merge builder)"

section \<open>The structured-if helper\<close>

text \<open>
  \<^verbatim>\<open>Branch\<close> is the phase of the helper. The field \<^verbatim>\<open>currentBranch\<close> exists in the
  source only when \<^verbatim>\<open>NDEBUG\<close> is not defined; the record keeps it, and the operations
  touch it only in a debug build. Its initial value is the phase Then of section 4.2.
\<close>

datatype Branch = kThen | kElse | kMerge

record IfBuilder =
  condition :: Id
  control :: "32 word"
  thenWeight :: "32 word"
  elseWeight :: "32 word"
  ifFunction :: FunctionRef
  headerBlock :: BlockRef
  thenBlock :: BlockRef
  elseBlock :: "BlockRef option"
  mergeBlock :: BlockRef
  thenPhiParent :: Id
  elsePhiParent :: Id
  currentBranch :: Branch

text \<open>
  A failed \<^verbatim>\<open>assert_true\<close> ends the program. Modelled from the spec: the macro comes
  from \<^verbatim>\<open>xenia/base/assert.h\<close>; section 7: it terminates in debug builds and checks
  nothing in release builds, so every assertion is guarded by \<open>\<not> NDEBUG\<close>.
\<close>

datatype Error = AssertionFailed

text \<open>\<^verbatim>\<open>SpirvBuilder::IfBuilder::IfBuilder\<close>, lines 106 to 133.\<close>

definition IfBuilder_new ::
  "Id \<Rightarrow> 32 word \<Rightarrow> SpirvBuilder \<Rightarrow> 32 word \<Rightarrow> 32 word \<Rightarrow> IfBuilder \<times> SpirvBuilder" where
  "IfBuilder_new cond ctrl builder then_weight else_weight =
     (let fn = parent (heap_blocks builder (getBuildPoint builder));
          (then_id, b1) = getUniqueId builder;
          (then_block, b2) = Block_new then_id fn b1;
          (merge_id, b3) = getUniqueId b2;
          (merge_block, b4) = Block_new merge_id fn b3;
          header_block = getBuildPoint b4;
          headerBlockId = getId b4 header_block;
          b5 = addBlock fn then_block b4;
          b6 = setBuildPoint then_block b5
      in (\<lparr>condition = cond, control = ctrl, thenWeight = then_weight,
            elseWeight = else_weight, ifFunction = fn, headerBlock = header_block,
            thenBlock = then_block, elseBlock = None, mergeBlock = merge_block,
            thenPhiParent = headerBlockId, elsePhiParent = headerBlockId,
            currentBranch = kThen\<rparr>, b6))"

text \<open>\<^verbatim>\<open>SpirvBuilder::IfBuilder::makeBeginElse\<close>, lines 135 to 156.\<close>

definition makeBeginElse ::
  "bool \<Rightarrow> bool \<Rightarrow> IfBuilder \<Rightarrow> SpirvBuilder \<Rightarrow> Error + IfBuilder \<times> SpirvBuilder" where
  "makeBeginElse NDEBUG branchToMerge this builder =
     (if \<not> NDEBUG \<and> currentBranch this \<noteq> kThen then Inl AssertionFailed
      else
        let (this, b1) =
              (if branchToMerge then
                 (this\<lparr>thenPhiParent := getId builder (getBuildPoint builder)\<rparr>,
                  createBranch (mergeBlock this) builder)
               else (this, builder));
            (else_id, b2) = getUniqueId b1;
            (else_block, b3) = Block_new else_id (ifFunction this) b2;
            this = this\<lparr>elseBlock := Some else_block\<rparr>;
            b4 = addBlock (ifFunction this) else_block b3;
            b5 = setBuildPoint else_block b4;
            this = (if NDEBUG then this else this\<lparr>currentBranch := kElse\<rparr>)
        in Inr (this, b5))"

text \<open>\<^verbatim>\<open>SpirvBuilder::IfBuilder::makeEndIf\<close>, lines 158 to 196.\<close>

definition makeEndIf ::
  "bool \<Rightarrow> bool \<Rightarrow> IfBuilder \<Rightarrow> SpirvBuilder \<Rightarrow> Error + IfBuilder \<times> SpirvBuilder" where
  "makeEndIf NDEBUG branchToMerge this builder =
     (if \<not> NDEBUG \<and> \<not> (currentBranch this = kThen \<or> currentBranch this = kElse)
      then Inl AssertionFailed
      else
        let (this, b1) =
              (if branchToMerge then
                 ((if elseBlock this \<noteq> None
                   then this\<lparr>elsePhiParent := getId builder (getBuildPoint builder)\<rparr>
                   else this\<lparr>thenPhiParent := getId builder (getBuildPoint builder)\<rparr>),
                  createBranch (mergeBlock this) builder)
               else (this, builder));
            b2 = setBuildPoint (headerBlock this) b1;
            b3 = createSelectionMerge (mergeBlock this) (control this) b2;
            falseBlock = (case elseBlock this of Some e \<Rightarrow> e | None \<Rightarrow> mergeBlock this);
            branch = Instruction_plain OpBranchConditional;
            branch = addIdOperand (condition this) branch;
            branch = addIdOperand (getId b3 (thenBlock this)) branch;
            branch = addIdOperand (getId b3 falseBlock) branch;
            branch =
              (if thenWeight this \<noteq> 0 \<or> elseWeight this \<noteq> 0 then
                 addImmediateOperand (elseWeight this)
                   (addImmediateOperand (thenWeight this) branch)
               else branch);
            b4 = addInstruction (getBuildPoint b3) branch b3;
            b5 = addPredecessor (thenBlock this) (getBuildPoint b4) b4;
            b6 = addPredecessor falseBlock (getBuildPoint b5) b5;
            b7 = addBlock (ifFunction this) (mergeBlock this) b6;
            b8 = setBuildPoint (mergeBlock this) b7;
            this = (if NDEBUG then this else this\<lparr>currentBranch := kMerge\<rparr>)
        in Inr (this, b8))"

text \<open>
  \<^verbatim>\<open>SpirvBuilder::IfBuilder::createMergePhi\<close>, lines 198 to 204. The member function is
  \<^verbatim>\<open>const\<close>: the helper itself does not change.
\<close>

definition createMergePhi ::
  "bool \<Rightarrow> IfBuilder \<Rightarrow> Id \<Rightarrow> Id \<Rightarrow> SpirvBuilder \<Rightarrow> Error + Id \<times> SpirvBuilder" where
  "createMergePhi NDEBUG this then_variable else_variable builder =
     (if \<not> NDEBUG \<and> getBuildPoint builder \<noteq> mergeBlock this then Inl AssertionFailed
      else Inr (createQuadOp OpPhi (getTypeId builder then_variable) then_variable
                  (thenPhiParent this) else_variable (elsePhiParent this) builder))"

section \<open>Straight-line code of the caller\<close>

text \<open>
  The caller fills a region with straight-line code: any sequence of calls of the
  emission operations of the source, each appending at the build point.
\<close>

datatype Emission =
    QuadOp Op Id Id Id Id Id
  | NoContractionUnaryOp Op Id Id
  | NoContractionBinOp Op Id Id Id
  | UnaryBuiltinCall Id Id int32 Id
  | BinBuiltinCall Id Id int32 Id Id
  | TriBuiltinCall Id Id int32 Id Id Id

fun emit :: "Emission \<Rightarrow> SpirvBuilder \<Rightarrow> SpirvBuilder" where
  "emit (QuadOp op_code t a b c d) builder = snd (createQuadOp op_code t a b c d builder)"
| "emit (NoContractionUnaryOp op_code t a) builder =
     snd (createNoContractionUnaryOp op_code t a builder)"
| "emit (NoContractionBinOp op_code t a b) builder =
     snd (createNoContractionBinOp op_code t a b builder)"
| "emit (UnaryBuiltinCall t s e a) builder = snd (createUnaryBuiltinCall t s e a builder)"
| "emit (BinBuiltinCall t s e a b) builder = snd (createBinBuiltinCall t s e a b builder)"
| "emit (TriBuiltinCall t s e a b c) builder =
     snd (createTriBuiltinCall t s e a b c builder)"

fun emitAll :: "Emission list \<Rightarrow> SpirvBuilder \<Rightarrow> SpirvBuilder" where
  "emitAll [] builder = builder"
| "emitAll (e # es) builder = emitAll es (emit e builder)"

text \<open>A small emitter state for concrete runs: one function, one attached block.\<close>

definition exampleBuilder :: SpirvBuilder where
  "exampleBuilder =
     \<lparr>uniqueId = 7, buildPoint = 0, generatingOpCodeForSpecConst = False,
      constantsTypesGlobals = [], decorations = [],
      typeTable = (\<lambda>x. if x = 5 then 3 else 0),
      heap_blocks = (\<lambda>_. \<lparr>block_id = 7, parent = 0, instructions = [], predecessors = []\<rparr>),
      heap_next = 1,
      heap_functions = (\<lambda>_. \<lparr>blocks = [0]\<rparr>)\<rparr>"

text \<open>A helper constructed on it, with a then-weight: the then-block is 1, the merge block 2.\<close>

definition exampleIf :: "IfBuilder \<times> SpirvBuilder" where
  "exampleIf = IfBuilder_new 9 0 exampleBuilder 4 0"

text \<open>
  The helper after an else-region was begun without the branch to the merge block, and
  after it was then closed with the branch.
\<close>

definition exampleElse :: "IfBuilder \<times> SpirvBuilder" where
  "exampleElse =
     (case makeBeginElse False False (fst exampleIf) (snd exampleIf) of
        Inr r \<Rightarrow> r | Inl e \<Rightarrow> exampleIf)"

definition exampleEnd :: "IfBuilder \<times> SpirvBuilder" where
  "exampleEnd =
     (case makeEndIf False True (fst exampleElse) (snd exampleElse) of
        Inr r \<Rightarrow> r | Inl e \<Rightarrow> exampleElse)"





text \<open>
  The same construct as \<open>exampleIf\<close> on an emitter whose spec-constant mode is set,
  closed, and the value join requested at its merge block.
\<close>

definition exampleFolded :: "IfBuilder \<times> SpirvBuilder" where
  "exampleFolded =
     IfBuilder_new 9 0 (exampleBuilder\<lparr>generatingOpCodeForSpecConst := True\<rparr>) 4 0"

definition exampleFoldedEnd :: "IfBuilder \<times> SpirvBuilder" where
  "exampleFoldedEnd =
     (case makeEndIf False True (fst exampleFolded) (snd exampleFolded) of
        Inr r \<Rightarrow> r | Inl e \<Rightarrow> exampleFolded)"

definition exampleFoldedPhi :: "Id \<times> SpirvBuilder" where
  "exampleFoldedPhi =
     (case createMergePhi False (fst exampleFoldedEnd) 5 6 (snd exampleFoldedEnd) of
        Inr r \<Rightarrow> r | Inl e \<Rightarrow> (0, snd exampleFoldedEnd))"

section \<open>Unfolding the primitives\<close>

lemmas prim_defs =
  getUniqueId_def Instruction_result_def Instruction_plain_def addIdOperand_def
  addImmediateOperand_def getResultId_def addInstruction_def getId_def addPredecessor_def
  createSpecConstantOp_def addDecoration_def getTypeId_def Block_new_def addBlock_def
  getBuildPoint_def setBuildPoint_def createBranch_def createSelectionMerge_def

lemmas emit_defs =
  createQuadOp_def createUnaryOp_def createBinOp_def createNoContractionUnaryOp_def
  createNoContractionBinOp_def createUnaryBuiltinCall_def createBinBuiltinCall_def
  createTriBuiltinCall_def

lemma createQuadOp_folded:
  "generatingOpCodeForSpecConst s \<Longrightarrow>
   createQuadOp op ty a b c d s =
     (uniqueId s + 1,
      s\<lparr>uniqueId := uniqueId s + 1,
        constantsTypesGlobals := constantsTypesGlobals s @
          [\<lparr>sc_resultId = uniqueId s + 1, sc_typeId = ty, sc_opCode = op,
            sc_operands = [a, b, c, d], sc_literals = []\<rparr>]\<rparr>)"
  by (simp add: createQuadOp_def prim_defs)

lemma createQuadOp_emitted:
  "\<not> generatingOpCodeForSpecConst s \<Longrightarrow>
   createQuadOp op ty a b c d s =
     (uniqueId s + 1,
      s\<lparr>uniqueId := uniqueId s + 1,
        heap_blocks := (heap_blocks s)(buildPoint s := (heap_blocks s (buildPoint s))
          \<lparr>instructions := instructions (heap_blocks s (buildPoint s)) @
            [\<lparr>opCode = op, typeId = Some ty, resultId = Some (uniqueId s + 1),
              operands = [IdOperand a, IdOperand b, IdOperand c, IdOperand d]\<rparr>]\<rparr>)\<rparr>)"
  by (simp add: createQuadOp_def prim_defs)

text \<open>What each primitive does to each component of the state.\<close>

lemma addInstruction_sel [simp]:
  "instructions (heap_blocks (addInstruction b i s) x) =
     (if x = b then instructions (heap_blocks s b) @ [i] else instructions (heap_blocks s x))"
  "block_id (heap_blocks (addInstruction b i s) x) = block_id (heap_blocks s x)"
  "parent (heap_blocks (addInstruction b i s) x) = parent (heap_blocks s x)"
  "predecessors (heap_blocks (addInstruction b i s) x) = predecessors (heap_blocks s x)"
  "uniqueId (addInstruction b i s) = uniqueId s"
  "buildPoint (addInstruction b i s) = buildPoint s"
  "generatingOpCodeForSpecConst (addInstruction b i s) = generatingOpCodeForSpecConst s"
  "constantsTypesGlobals (addInstruction b i s) = constantsTypesGlobals s"
  "decorations (addInstruction b i s) = decorations s"
  "typeTable (addInstruction b i s) = typeTable s"
  "heap_next (addInstruction b i s) = heap_next s"
  "heap_functions (addInstruction b i s) = heap_functions s"
  by (simp_all add: addInstruction_def)

lemma addPredecessor_sel [simp]:
  "predecessors (heap_blocks (addPredecessor b p s) x) =
     (if x = b then predecessors (heap_blocks s b) @ [p] else predecessors (heap_blocks s x))"
  "block_id (heap_blocks (addPredecessor b p s) x) = block_id (heap_blocks s x)"
  "parent (heap_blocks (addPredecessor b p s) x) = parent (heap_blocks s x)"
  "instructions (heap_blocks (addPredecessor b p s) x) = instructions (heap_blocks s x)"
  "uniqueId (addPredecessor b p s) = uniqueId s"
  "buildPoint (addPredecessor b p s) = buildPoint s"
  "generatingOpCodeForSpecConst (addPredecessor b p s) = generatingOpCodeForSpecConst s"
  "constantsTypesGlobals (addPredecessor b p s) = constantsTypesGlobals s"
  "decorations (addPredecessor b p s) = decorations s"
  "typeTable (addPredecessor b p s) = typeTable s"
  "heap_next (addPredecessor b p s) = heap_next s"
  "heap_functions (addPredecessor b p s) = heap_functions s"
  by (simp_all add: addPredecessor_def)

lemma addBlock_sel [simp]:
  "blocks (heap_functions (addBlock f b s) g) =
     (if g = f then blocks (heap_functions s f) @ [b] else blocks (heap_functions s g))"
  "heap_blocks (addBlock f b s) = heap_blocks s"
  "uniqueId (addBlock f b s) = uniqueId s"
  "buildPoint (addBlock f b s) = buildPoint s"
  "generatingOpCodeForSpecConst (addBlock f b s) = generatingOpCodeForSpecConst s"
  "constantsTypesGlobals (addBlock f b s) = constantsTypesGlobals s"
  "decorations (addBlock f b s) = decorations s"
  "typeTable (addBlock f b s) = typeTable s"
  "heap_next (addBlock f b s) = heap_next s"
  by (simp_all add: addBlock_def)

lemma setBuildPoint_sel [simp]:
  "buildPoint (setBuildPoint b s) = b"
  "heap_blocks (setBuildPoint b s) = heap_blocks s"
  "heap_functions (setBuildPoint b s) = heap_functions s"
  "uniqueId (setBuildPoint b s) = uniqueId s"
  "generatingOpCodeForSpecConst (setBuildPoint b s) = generatingOpCodeForSpecConst s"
  "constantsTypesGlobals (setBuildPoint b s) = constantsTypesGlobals s"
  "decorations (setBuildPoint b s) = decorations s"
  "typeTable (setBuildPoint b s) = typeTable s"
  "heap_next (setBuildPoint b s) = heap_next s"
  by (simp_all add: setBuildPoint_def)

lemma getUniqueId_sel [simp]:
  "fst (getUniqueId s) = uniqueId s + 1"
  "uniqueId (snd (getUniqueId s)) = uniqueId s + 1"
  "heap_blocks (snd (getUniqueId s)) = heap_blocks s"
  "heap_functions (snd (getUniqueId s)) = heap_functions s"
  "buildPoint (snd (getUniqueId s)) = buildPoint s"
  "generatingOpCodeForSpecConst (snd (getUniqueId s)) = generatingOpCodeForSpecConst s"
  "constantsTypesGlobals (snd (getUniqueId s)) = constantsTypesGlobals s"
  "decorations (snd (getUniqueId s)) = decorations s"
  "typeTable (snd (getUniqueId s)) = typeTable s"
  "heap_next (snd (getUniqueId s)) = heap_next s"
  by (simp_all add: getUniqueId_def)

lemma Block_new_sel [simp]:
  "fst (Block_new i f s) = heap_next s"
  "heap_blocks (snd (Block_new i f s)) x =
     (if x = heap_next s
      then \<lparr>block_id = i, parent = f, instructions = [], predecessors = []\<rparr>
      else heap_blocks s x)"
  "heap_next (snd (Block_new i f s)) = heap_next s + 1"
  "heap_functions (snd (Block_new i f s)) = heap_functions s"
  "uniqueId (snd (Block_new i f s)) = uniqueId s"
  "buildPoint (snd (Block_new i f s)) = buildPoint s"
  "generatingOpCodeForSpecConst (snd (Block_new i f s)) = generatingOpCodeForSpecConst s"
  "constantsTypesGlobals (snd (Block_new i f s)) = constantsTypesGlobals s"
  "decorations (snd (Block_new i f s)) = decorations s"
  "typeTable (snd (Block_new i f s)) = typeTable s"
  by (simp_all add: Block_new_def)

lemmas instr_defs = Instruction_plain_def Instruction_result_def addIdOperand_def
  addImmediateOperand_def getResultId_def

lemma createBranch_sel [simp]:
  "instructions (heap_blocks (createBranch t s) x) =
     (if x = buildPoint s
      then instructions (heap_blocks s x) @
        [\<lparr>opCode = OpBranch, typeId = None, resultId = None,
          operands = [IdOperand (block_id (heap_blocks s t))]\<rparr>]
      else instructions (heap_blocks s x))"
  "predecessors (heap_blocks (createBranch t s) x) =
     (if x = t then predecessors (heap_blocks s t) @ [buildPoint s]
      else predecessors (heap_blocks s x))"
  "block_id (heap_blocks (createBranch t s) x) = block_id (heap_blocks s x)"
  "parent (heap_blocks (createBranch t s) x) = parent (heap_blocks s x)"
  "uniqueId (createBranch t s) = uniqueId s"
  "buildPoint (createBranch t s) = buildPoint s"
  "generatingOpCodeForSpecConst (createBranch t s) = generatingOpCodeForSpecConst s"
  "constantsTypesGlobals (createBranch t s) = constantsTypesGlobals s"
  "decorations (createBranch t s) = decorations s"
  "typeTable (createBranch t s) = typeTable s"
  "heap_next (createBranch t s) = heap_next s"
  "heap_functions (createBranch t s) = heap_functions s"
  by (simp_all add: createBranch_def instr_defs getId_def)

lemma createSelectionMerge_sel [simp]:
  "instructions (heap_blocks (createSelectionMerge m c s) x) =
     (if x = buildPoint s
      then instructions (heap_blocks s x) @
        [\<lparr>opCode = OpSelectionMerge, typeId = None, resultId = None,
          operands = [IdOperand (block_id (heap_blocks s m)), ImmediateOperand c]\<rparr>]
      else instructions (heap_blocks s x))"
  "predecessors (heap_blocks (createSelectionMerge m c s) x) = predecessors (heap_blocks s x)"
  "block_id (heap_blocks (createSelectionMerge m c s) x) = block_id (heap_blocks s x)"
  "parent (heap_blocks (createSelectionMerge m c s) x) = parent (heap_blocks s x)"
  "uniqueId (createSelectionMerge m c s) = uniqueId s"
  "buildPoint (createSelectionMerge m c s) = buildPoint s"
  "generatingOpCodeForSpecConst (createSelectionMerge m c s) = generatingOpCodeForSpecConst s"
  "constantsTypesGlobals (createSelectionMerge m c s) = constantsTypesGlobals s"
  "decorations (createSelectionMerge m c s) = decorations s"
  "typeTable (createSelectionMerge m c s) = typeTable s"
  "heap_next (createSelectionMerge m c s) = heap_next s"
  "heap_functions (createSelectionMerge m c s) = heap_functions s"
  by (simp_all add: createSelectionMerge_def instr_defs getId_def)

lemma split_pair: "(case p of (a, b) \<Rightarrow> f a b) = f (fst p) (snd p)"
  by (cases p) simp

lemmas ifb_simps = Let_def split_pair getId_def getBuildPoint_def instr_defs

lemmas all_defs = exampleIf_def IfBuilder_new_def makeBeginElse_def makeEndIf_def
  createMergePhi_def emit_defs prim_defs exampleBuilder_def Let_def

lemmas example_defs = exampleElse_def exampleEnd_def all_defs


lemmas folded_defs = exampleFolded_def exampleFoldedEnd_def exampleFoldedPhi_def all_defs

text \<open>Straight-line code leaves everything but the instructions of the build point.\<close>

lemma emit_frame [simp]:
  "buildPoint (emit e s) = buildPoint s"
  "heap_next (emit e s) = heap_next s"
  "heap_functions (emit e s) = heap_functions s"
  "generatingOpCodeForSpecConst (emit e s) = generatingOpCodeForSpecConst s"
  "typeTable (emit e s) = typeTable s"
  "block_id (heap_blocks (emit e s) b) = block_id (heap_blocks s b)"
  "parent (heap_blocks (emit e s) b) = parent (heap_blocks s b)"
  "predecessors (heap_blocks (emit e s) b) = predecessors (heap_blocks s b)"
  by (cases e; simp add: emit_defs prim_defs)+


lemma emitAll_frame [simp]:
  "buildPoint (emitAll es s) = buildPoint s"
  "heap_next (emitAll es s) = heap_next s"
  "heap_functions (emitAll es s) = heap_functions s"
  "generatingOpCodeForSpecConst (emitAll es s) = generatingOpCodeForSpecConst s"
  "typeTable (emitAll es s) = typeTable s"
  "block_id (heap_blocks (emitAll es s) b) = block_id (heap_blocks s b)"
  "parent (heap_blocks (emitAll es s) b) = parent (heap_blocks s b)"
  "predecessors (heap_blocks (emitAll es s) b) = predecessors (heap_blocks s b)"
  by (induction es arbitrary: s; simp)+


text \<open>How the helper's own fields move under its operations.\<close>

lemma makeBeginElse_False_thenPhiParent:
  "makeBeginElse NDEBUG False this builder = Inr (this', builder') \<Longrightarrow>
   thenPhiParent this' = thenPhiParent this"
  by (auto simp add: makeBeginElse_def ifb_simps split: if_splits)

lemma makeBeginElse_elseBlock:
  "makeBeginElse NDEBUG btm this builder = Inr (this', builder') \<Longrightarrow>
   elseBlock this' \<noteq> None"
  by (auto simp add: makeBeginElse_def ifb_simps split: if_splits)

lemma makeEndIf_thenPhiParent:
  "makeEndIf NDEBUG btm this builder = Inr (this', builder') \<Longrightarrow>
   elseBlock this \<noteq> None \<or> \<not> btm \<Longrightarrow>
   thenPhiParent this' = thenPhiParent this"
  by (auto simp add: makeEndIf_def ifb_simps split: if_splits)

lemma IfBuilder_new_phiParents:
  "IfBuilder_new cond ctrl builder tw ew = (this, builder') \<Longrightarrow>
   thenPhiParent this = getId builder' (headerBlock this) \<and>
   elsePhiParent this = getId builder' (headerBlock this) \<and>
   headerBlock this = buildPoint builder \<and>
   elseBlock this = None \<and> currentBranch this = kThen"
  by (auto simp add: IfBuilder_new_def ifb_simps)

lemma createMergePhi_last:
  "createMergePhi NDEBUG this a b builder = Inr (r, builder') \<Longrightarrow>
   \<not> generatingOpCodeForSpecConst builder \<Longrightarrow>
   last (instructions (heap_blocks builder' (buildPoint builder))) =
     \<lparr>opCode = OpPhi, typeId = Some (getTypeId builder a), resultId = Some r,
       operands = [IdOperand a, IdOperand (thenPhiParent this), IdOperand b,
         IdOperand (elsePhiParent this)]\<rparr>"
  by (auto simp add: createMergePhi_def createQuadOp_emitted split: if_splits)






section \<open>The N-ary emission operation\<close>

text \<open>
  Claim C3. A call of \<^verbatim>\<open>createQuadOp\<close> takes one of two paths, and the spec-constant
  mode of the emitter alone selects it (the operation has no argument that could). The
  id it returns is the next value of the unique-id counter. Outside the mode the final
  state is the initial one with the counter advanced and one instruction appended to
  the block at the build point: the given opcode and result type, the returned id as
  result, and the four id operands in argument order; the constant-expression table is
  as before. In the mode the final state is the initial one with the counter advanced
  and one record appended to the constant-expression table: the returned id, the given
  type, the same opcode and the same four operands; every block is as before.
\<close>

theorem createQuadOp_two_paths:
  "(case createQuadOp op_code type_id operand1 operand2 operand3 operand4 builder of
      (result, builder') \<Rightarrow>
        result = uniqueId builder + 1 \<and>
        (if generatingOpCodeForSpecConst builder then
           builder' = builder
             \<lparr>uniqueId := result,
              constantsTypesGlobals := constantsTypesGlobals builder @
                [\<lparr>sc_resultId = result, sc_typeId = type_id, sc_opCode = op_code,
                  sc_operands = [operand1, operand2, operand3, operand4],
                  sc_literals = []\<rparr>]\<rparr> \<and>
           heap_blocks builder' = heap_blocks builder
         else
           builder' = builder
             \<lparr>uniqueId := result,
              heap_blocks := (heap_blocks builder)
                (buildPoint builder := (heap_blocks builder (buildPoint builder))
                  \<lparr>instructions := instructions (heap_blocks builder (buildPoint builder)) @
                    [\<lparr>opCode = op_code, typeId = Some type_id, resultId = Some result,
                      operands = [IdOperand operand1, IdOperand operand2,
                        IdOperand operand3, IdOperand operand4]\<rparr>]\<rparr>)\<rparr> \<and>
           constantsTypesGlobals builder' = constantsTypesGlobals builder))"
  by (cases "generatingOpCodeForSpecConst builder")
     (simp_all add: createQuadOp_folded createQuadOp_emitted)

text \<open>
  Claim C4. While the spec-constant mode is set, a call of \<^verbatim>\<open>createQuadOp\<close> appends
  to no block: the store of blocks is the same after the call, the build point is the
  same, and the block at the build point has as many instructions as before.
\<close>

theorem createQuadOp_folded_appends_nothing:
  "generatingOpCodeForSpecConst builder \<Longrightarrow>
   heap_blocks (snd (createQuadOp op_code type_id operand1 operand2 operand3 operand4 builder))
     = heap_blocks builder \<and>
   buildPoint (snd (createQuadOp op_code type_id operand1 operand2 operand3 operand4 builder))
     = buildPoint builder \<and>
   length (instructions (heap_blocks
       (snd (createQuadOp op_code type_id operand1 operand2 operand3 operand4 builder))
       (buildPoint
         (snd (createQuadOp op_code type_id operand1 operand2 operand3 operand4 builder))))) =
     length (instructions (heap_blocks builder (buildPoint builder)))"
  by (simp add: createQuadOp_folded)

theorem createQuadOp_folded_appends_nothing_witness:
  "generatingOpCodeForSpecConst (exampleBuilder\<lparr>generatingOpCodeForSpecConst := True\<rparr>) \<and>
   heap_blocks (snd (createQuadOp OpPhi 3 5 7 6 7
       (exampleBuilder\<lparr>generatingOpCodeForSpecConst := True\<rparr>))) = heap_blocks exampleBuilder \<and>
   length (instructions (heap_blocks (snd (createQuadOp OpPhi 3 5 7 6 7
       (exampleBuilder\<lparr>generatingOpCodeForSpecConst := True\<rparr>))) 0)) = 0 \<and>
   fst (createQuadOp OpPhi 3 5 7 6 7
       (exampleBuilder\<lparr>generatingOpCodeForSpecConst := True\<rparr>)) = 8"
proof -
  have h: "generatingOpCodeForSpecConst (exampleBuilder\<lparr>generatingOpCodeForSpecConst := True\<rparr>)"
    by simp
  have r: "fst (createQuadOp OpPhi 3 5 7 6 7
       (exampleBuilder\<lparr>generatingOpCodeForSpecConst := True\<rparr>)) = 8"
    by (simp add: createQuadOp_def prim_defs exampleBuilder_def)
  show ?thesis
    using h r createQuadOp_folded_appends_nothing [OF h, of OpPhi 3 5 7 6 7]
    by (simp add: exampleBuilder_def)
qed

text \<open>
  Claim C5. Every emission operation of the source advances the unique-id counter by
  exactly one per call: \<^verbatim>\<open>createQuadOp\<close> and the two no-contraction operations on either
  path, whatever the spec-constant mode, and the three builtin calls.
\<close>

theorem emission_advances_uniqueId_once:
  "uniqueId (snd (createQuadOp op_code type_id operand1 operand2 operand3 operand4 builder))
     = uniqueId builder + 1 \<and>
   uniqueId (snd (createNoContractionUnaryOp op_code type_id operand1 builder))
     = uniqueId builder + 1 \<and>
   uniqueId (snd (createNoContractionBinOp op_code type_id operand1 operand2 builder))
     = uniqueId builder + 1 \<and>
   uniqueId (snd (createUnaryBuiltinCall type_id builtins entry_point operand1 builder))
     = uniqueId builder + 1 \<and>
   uniqueId (snd (createBinBuiltinCall type_id builtins entry_point operand1 operand2 builder))
     = uniqueId builder + 1 \<and>
   uniqueId (snd (createTriBuiltinCall type_id builtins entry_point operand1 operand2 operand3
       builder))
     = uniqueId builder + 1"
  by (simp add: emit_defs prim_defs)

section \<open>The builtin calls\<close>

text \<open>
  Claim C8. Each of the three builtin calls returns the next value of the unique-id
  counter and leaves the initial state with the counter advanced and one instruction
  appended to the block at the build point: opcode \<^verbatim>\<open>OpExtInst\<close>, the given result type,
  the returned id as result, and as operands the extension set as an id, the entry point
  as an immediate, and the one, two or three value ids in argument order. Nothing else
  of the state changes, whatever the spec-constant mode: the constant-expression table
  is never written.
\<close>

theorem builtin_calls_append_OpExtInst:
  "createUnaryBuiltinCall result_type builtins entry_point operand1 builder =
     (uniqueId builder + 1,
      builder\<lparr>uniqueId := uniqueId builder + 1,
        heap_blocks := (heap_blocks builder)
          (buildPoint builder := (heap_blocks builder (buildPoint builder))
            \<lparr>instructions := instructions (heap_blocks builder (buildPoint builder)) @
              [\<lparr>opCode = OpExtInst, typeId = Some result_type,
                resultId = Some (uniqueId builder + 1),
                operands = [IdOperand builtins, ImmediateOperand entry_point,
                  IdOperand operand1]\<rparr>]\<rparr>)\<rparr>) \<and>
   createBinBuiltinCall result_type builtins entry_point operand1 operand2 builder =
     (uniqueId builder + 1,
      builder\<lparr>uniqueId := uniqueId builder + 1,
        heap_blocks := (heap_blocks builder)
          (buildPoint builder := (heap_blocks builder (buildPoint builder))
            \<lparr>instructions := instructions (heap_blocks builder (buildPoint builder)) @
              [\<lparr>opCode = OpExtInst, typeId = Some result_type,
                resultId = Some (uniqueId builder + 1),
                operands = [IdOperand builtins, ImmediateOperand entry_point,
                  IdOperand operand1, IdOperand operand2]\<rparr>]\<rparr>)\<rparr>) \<and>
   createTriBuiltinCall result_type builtins entry_point operand1 operand2 operand3 builder =
     (uniqueId builder + 1,
      builder\<lparr>uniqueId := uniqueId builder + 1,
        heap_blocks := (heap_blocks builder)
          (buildPoint builder := (heap_blocks builder (buildPoint builder))
            \<lparr>instructions := instructions (heap_blocks builder (buildPoint builder)) @
              [\<lparr>opCode = OpExtInst, typeId = Some result_type,
                resultId = Some (uniqueId builder + 1),
                operands = [IdOperand builtins, ImmediateOperand entry_point,
                  IdOperand operand1, IdOperand operand2, IdOperand operand3]\<rparr>]\<rparr>)\<rparr>)"
  by (simp add: emit_defs prim_defs)

section \<open>The structured-if helper: closing and merging\<close>

text \<open>
  Claim C6. When \<^verbatim>\<open>makeEndIf\<close> returns, the last instruction of the header block is the
  conditional branch it emitted; its operands are the condition, the id of the
  then-block and the id of the false target (the else-block if there is one, else the
  merge block), followed by the two weights, then-weight first, exactly when at least
  one of them is not zero, and by nothing when both are zero.
\<close>

theorem makeEndIf_branch_weights:
  "makeEndIf NDEBUG branchToMerge this builder = Inr (this', builder') \<Longrightarrow>
   opCode (last (instructions (heap_blocks builder' (headerBlock this)))) = OpBranchConditional \<and>
   operands (last (instructions (heap_blocks builder' (headerBlock this)))) =
     [IdOperand (condition this),
      IdOperand (getId builder' (thenBlock this)),
      IdOperand (getId builder'
        (case elseBlock this of Some e \<Rightarrow> e | None \<Rightarrow> mergeBlock this))] @
     (if thenWeight this \<noteq> 0 \<or> elseWeight this \<noteq> 0
      then [ImmediateOperand (thenWeight this), ImmediateOperand (elseWeight this)]
      else [])"
  by (auto simp add: makeEndIf_def ifb_simps split: if_splits option.splits)

theorem makeEndIf_branch_weights_witness:
  "\<exists>this' builder'.
     makeEndIf False True (fst exampleIf) (snd exampleIf) = Inr (this', builder') \<and>
     opCode (last (instructions (heap_blocks builder' 0))) = OpBranchConditional \<and>
     operands (last (instructions (heap_blocks builder' 0))) =
       [IdOperand 9, IdOperand 8, IdOperand 9, ImmediateOperand 4, ImmediateOperand 0]"
proof -
  obtain this' builder' where
    h: "makeEndIf False True (fst exampleIf) (snd exampleIf) = Inr (this', builder')"
    by (simp add: all_defs)
  show ?thesis
    using h makeEndIf_branch_weights [OF h] by (auto simp add: all_defs)
qed

text \<open>
  Claim C7. In a debug build (\<^verbatim>\<open>NDEBUG\<close> not defined) the phase moves forward only. A
  new helper is in phase Then. \<^verbatim>\<open>makeBeginElse\<close> fails its assertion exactly when the
  phase is not Then, and otherwise leaves the phase Else. \<^verbatim>\<open>makeEndIf\<close> fails its
  assertion exactly when the phase is Merged, and otherwise leaves the phase Merged and
  the build point at the merge block. After either has returned, a further
  \<^verbatim>\<open>makeBeginElse\<close> fails the assertion in any state, with any argument, and so does a
  further \<^verbatim>\<open>makeEndIf\<close> after \<^verbatim>\<open>makeEndIf\<close>.
\<close>

theorem ifBuilder_phase_order:
  "currentBranch (fst (IfBuilder_new cond ctrl builder0 tw ew)) = kThen \<and>
   (case makeBeginElse False branchToMerge this builder of
      Inl e \<Rightarrow> currentBranch this \<noteq> kThen
    | Inr (this', builder') \<Rightarrow>
        currentBranch this = kThen \<and> currentBranch this' = kElse \<and>
        makeBeginElse False again this' later = Inl AssertionFailed) \<and>
   (case makeEndIf False branchToMerge this builder of
      Inl e \<Rightarrow> currentBranch this = kMerge
    | Inr (this', builder') \<Rightarrow>
        (currentBranch this = kThen \<or> currentBranch this = kElse) \<and>
        currentBranch this' = kMerge \<and>
        buildPoint builder' = mergeBlock this' \<and>
        mergeBlock this' = mergeBlock this \<and>
        makeBeginElse False again this' later = Inl AssertionFailed \<and>
        makeEndIf False again this' later = Inl AssertionFailed)"
  by (cases "currentBranch this"; cases branchToMerge)
     (simp_all add: IfBuilder_new_def makeBeginElse_def makeEndIf_def ifb_simps)

theorem ifBuilder_phase_order_witness:
  "(case makeBeginElse False True (fst exampleIf) (snd exampleIf) of
      Inl e \<Rightarrow> False
    | Inr (this', builder') \<Rightarrow>
        currentBranch this' = kElse \<and>
        makeBeginElse False True this' builder' = Inl AssertionFailed) \<and>
   (case makeEndIf False True (fst exampleIf) (snd exampleIf) of
      Inl e \<Rightarrow> False
    | Inr (this', builder') \<Rightarrow>
        currentBranch this' = kMerge \<and> buildPoint builder' = 2 \<and>
        makeBeginElse False True this' builder' = Inl AssertionFailed \<and>
        makeEndIf False True this' builder' = Inl AssertionFailed)"
  using ifBuilder_phase_order [where branchToMerge = True and this = "fst exampleIf"
      and builder = "snd exampleIf" and again = True
      and later = "snd (projr (makeEndIf False True (fst exampleIf) (snd exampleIf)))"]
  by (simp add: all_defs)

text \<open>
  Claim C2 as stated, for every helper whose \<^verbatim>\<open>makeEndIf\<close> has returned, does not hold
  when the spec-constant mode is set. On an emitter in the mode the construction and the
  closing run as always and leave the build point at the merge block 2; the call
  \<^verbatim>\<open>createMergePhi(5, 6)\<close> then returns the id 10, the merge block is as empty as
  before, no block has changed, and the id names a record of the constant-expression
  table. The test of the mode in \<^verbatim>\<open>createQuadOp\<close> (lines 24 to 32) sends the request
  there by design.
\<close>

theorem createMergePhi_after_makeEndIf_counterexample:
  "makeEndIf False True (fst exampleFolded) (snd exampleFolded) = Inr exampleFoldedEnd \<and>
   buildPoint (snd exampleFoldedEnd) = mergeBlock (fst exampleFoldedEnd) \<and>
   mergeBlock (fst exampleFoldedEnd) = 2 \<and>
   createMergePhi False (fst exampleFoldedEnd) 5 6 (snd exampleFoldedEnd) =
     Inr exampleFoldedPhi \<and>
   fst exampleFoldedPhi = 10 \<and>
   instructions (heap_blocks (snd exampleFoldedEnd) 2) = [] \<and>
   instructions (heap_blocks (snd exampleFoldedPhi) 2) = [] \<and>
   heap_blocks (snd exampleFoldedPhi) = heap_blocks (snd exampleFoldedEnd) \<and>
   constantsTypesGlobals (snd exampleFoldedPhi) =
     [\<lparr>sc_resultId = 10, sc_typeId = 3, sc_opCode = OpPhi,
       sc_operands = [5, 8, 6, 7], sc_literals = []\<rparr>]"
  by (simp add: folded_defs)

text \<open>
  Claim C2, amended. Let \<^verbatim>\<open>makeEndIf\<close> have returned, let the build point still be
  where it left it, the merge block, and let the spec-constant mode be off. Then
  \<^verbatim>\<open>createMergePhi(a, b)\<close> returns the next value of the unique-id counter and appends
  to the merge block one instruction: opcode \<^verbatim>\<open>OpPhi\<close>, as result type the type the
  table declares for \<open>a\<close>, the returned id as result, and the operands \<open>a\<close>, the
  then-parent, \<open>b\<close>, the else-parent in this order. Nothing else of the state changes.
\<close>

theorem createMergePhi_after_makeEndIf:
  assumes "makeEndIf NDEBUG branchToMerge this0 builder0 = Inr (this, builder1)"
    and "buildPoint builder = buildPoint builder1"
    and "\<not> generatingOpCodeForSpecConst builder"
  shows "createMergePhi NDEBUG this a b builder =
     Inr (uniqueId builder + 1,
       builder\<lparr>uniqueId := uniqueId builder + 1,
         heap_blocks := (heap_blocks builder)
           (mergeBlock this := (heap_blocks builder (mergeBlock this))
             \<lparr>instructions := instructions (heap_blocks builder (mergeBlock this)) @
               [\<lparr>opCode = OpPhi, typeId = Some (getTypeId builder a),
                 resultId = Some (uniqueId builder + 1),
                 operands = [IdOperand a, IdOperand (thenPhiParent this), IdOperand b,
                   IdOperand (elsePhiParent this)]\<rparr>]\<rparr>)\<rparr>)"
proof -
  from assms(1) have "buildPoint builder1 = mergeBlock this"
    by (auto simp add: makeEndIf_def ifb_simps split: if_splits)
  with assms(2) have bp: "buildPoint builder = mergeBlock this"
    by simp
  with assms(3) show ?thesis
    by (simp add: createMergePhi_def getBuildPoint_def createQuadOp_emitted)
qed

theorem createMergePhi_after_makeEndIf_witness:
  "\<exists>this builder1.
     makeEndIf False True (fst exampleIf) (snd exampleIf) = Inr (this, builder1) \<and>
     \<not> generatingOpCodeForSpecConst builder1 \<and>
     (case createMergePhi False this 5 6 builder1 of
        Inl e \<Rightarrow> False
      | Inr (result, builder') \<Rightarrow>
          result = 10 \<and>
          instructions (heap_blocks builder' 2) =
            [\<lparr>opCode = OpPhi, typeId = Some 3, resultId = Some 10,
              operands = [IdOperand 5, IdOperand 8, IdOperand 6, IdOperand 7]\<rparr>])"
proof -
  obtain this builder1 where
    h: "makeEndIf False True (fst exampleIf) (snd exampleIf) = Inr (this, builder1)"
    by (simp add: all_defs)
  have f: "\<not> generatingOpCodeForSpecConst builder1"
    using h by (auto simp add: all_defs)
  show ?thesis
    using h f createMergePhi_after_makeEndIf [OF h refl f, of 5 6]
    by (auto simp add: all_defs)
qed

text \<open>
  Claim C9. If the spec-constant mode is set when \<^verbatim>\<open>createMergePhi\<close> is called with the
  build point at the merge block, the call succeeds on the constant-folding path of
  \<^verbatim>\<open>createQuadOp\<close>: no block changes, so the merge block has the instructions it had,
  and the id returned names a new record of the constant-expression table with opcode
  \<^verbatim>\<open>OpPhi\<close> and the four operands.
\<close>

theorem createMergePhi_folded:
  assumes "generatingOpCodeForSpecConst builder"
    and "buildPoint builder = mergeBlock this"
  shows "(case createMergePhi NDEBUG this a b builder of
      Inl e \<Rightarrow> False
    | Inr (result, builder') \<Rightarrow>
        heap_blocks builder' = heap_blocks builder \<and>
        instructions (heap_blocks builder' (mergeBlock this)) =
          instructions (heap_blocks builder (mergeBlock this)) \<and>
        constantsTypesGlobals builder' = constantsTypesGlobals builder @
          [\<lparr>sc_resultId = result, sc_typeId = getTypeId builder a, sc_opCode = OpPhi,
            sc_operands = [a, thenPhiParent this, b, elsePhiParent this],
            sc_literals = []\<rparr>])"
  using assms by (simp add: createMergePhi_def getBuildPoint_def createQuadOp_folded)

theorem createMergePhi_folded_witness:
  "generatingOpCodeForSpecConst
     (exampleBuilder\<lparr>buildPoint := 2, generatingOpCodeForSpecConst := True\<rparr>) \<and>
   buildPoint (exampleBuilder\<lparr>buildPoint := 2, generatingOpCodeForSpecConst := True\<rparr>) =
     mergeBlock (fst exampleIf) \<and>
   (case createMergePhi False (fst exampleIf) 5 6
       (exampleBuilder\<lparr>buildPoint := 2, generatingOpCodeForSpecConst := True\<rparr>) of
      Inl e \<Rightarrow> False
    | Inr (result, builder') \<Rightarrow>
        result = 8 \<and>
        instructions (heap_blocks builder' 2) = [] \<and>
        constantsTypesGlobals builder' =
          [\<lparr>sc_resultId = 8, sc_typeId = 3, sc_opCode = OpPhi,
            sc_operands = [5, 7, 6, 7], sc_literals = []\<rparr>])"
proof -
  have h: "generatingOpCodeForSpecConst
     (exampleBuilder\<lparr>buildPoint := 2, generatingOpCodeForSpecConst := True\<rparr>)"
    by simp
  have b: "buildPoint (exampleBuilder\<lparr>buildPoint := 2, generatingOpCodeForSpecConst := True\<rparr>)
     = mergeBlock (fst exampleIf)"
    by (simp add: all_defs)
  show ?thesis
    using h b createMergePhi_folded [OF h b, where NDEBUG = False and a = 5 and b = 6]
    by (auto simp add: all_defs)
qed

text \<open>
  Claim C10. The constructor sets the then-parent to the id of the header block.
  \<^verbatim>\<open>makeBeginElse\<close> without the branch to the merge block leaves the then-parent as it
  is. So when the then-region never branches to the merge block (an else-region begun
  without the branch and then closed in either way, or no else-region and a closing
  without the branch), the then-parent is still the header block's id after the closing,
  whatever the caller did to the emitter state in between, and the phi that a later
  \<^verbatim>\<open>createMergePhi\<close> appends at the build point names the header block's id as the parent
  of the then-value.
\<close>

theorem thenPhiParent_without_branch:
  assumes "IfBuilder_new cond ctrl b_new tw ew = (if_new, b_new')"
  shows
   "thenPhiParent if_new = getId b_new' (headerBlock if_new) \<and>
    (makeBeginElse NDEBUG False this builder = Inr (this', builder') \<longrightarrow>
       thenPhiParent this' = thenPhiParent this) \<and>
    (makeBeginElse NDEBUG False if_new b_else = Inr (if_else, b_else') \<and>
     makeEndIf NDEBUG branchToMerge if_else b_end = Inr (if_end, b_end') \<and>
     createMergePhi NDEBUG if_end a b b_phi = Inr (r, b_phi') \<and>
     \<not> generatingOpCodeForSpecConst b_phi \<longrightarrow>
       thenPhiParent if_end = getId b_new' (headerBlock if_new) \<and>
       operands (last (instructions (heap_blocks b_phi' (buildPoint b_phi)))) =
         [IdOperand a, IdOperand (getId b_new' (headerBlock if_new)), IdOperand b,
          IdOperand (elsePhiParent if_end)]) \<and>
    (makeEndIf NDEBUG False if_new b_end = Inr (if_end, b_end') \<and>
     createMergePhi NDEBUG if_end a b b_phi = Inr (r, b_phi') \<and>
     \<not> generatingOpCodeForSpecConst b_phi \<longrightarrow>
       thenPhiParent if_end = getId b_new' (headerBlock if_new) \<and>
       operands (last (instructions (heap_blocks b_phi' (buildPoint b_phi)))) =
         [IdOperand a, IdOperand (getId b_new' (headerBlock if_new)), IdOperand b,
          IdOperand (elsePhiParent if_end)])"
proof (intro conjI impI)
  show c: "thenPhiParent if_new = getId b_new' (headerBlock if_new)"
    using IfBuilder_new_phiParents [OF assms] by simp
  show "thenPhiParent this' = thenPhiParent this"
    if "makeBeginElse NDEBUG False this builder = Inr (this', builder')"
    using that by (rule makeBeginElse_False_thenPhiParent)
  {
    assume h: "makeBeginElse NDEBUG False if_new b_else = Inr (if_else, b_else') \<and>
      makeEndIf NDEBUG branchToMerge if_else b_end = Inr (if_end, b_end') \<and>
      createMergePhi NDEBUG if_end a b b_phi = Inr (r, b_phi') \<and>
      \<not> generatingOpCodeForSpecConst b_phi"
    have "thenPhiParent if_else = thenPhiParent if_new"
      using h makeBeginElse_False_thenPhiParent by blast
    moreover have "elseBlock if_else \<noteq> None"
      using h makeBeginElse_elseBlock by blast
    ultimately show p: "thenPhiParent if_end = getId b_new' (headerBlock if_new)"
      using h c makeEndIf_thenPhiParent [of NDEBUG branchToMerge if_else b_end if_end b_end']
      by simp
    show "operands (last (instructions (heap_blocks b_phi' (buildPoint b_phi)))) =
         [IdOperand a, IdOperand (getId b_new' (headerBlock if_new)), IdOperand b,
          IdOperand (elsePhiParent if_end)]"
      using h p createMergePhi_last [of NDEBUG if_end a b b_phi r b_phi'] by simp
  }
  {
    assume h: "makeEndIf NDEBUG False if_new b_end = Inr (if_end, b_end') \<and>
     createMergePhi NDEBUG if_end a b b_phi = Inr (r, b_phi') \<and>
     \<not> generatingOpCodeForSpecConst b_phi"
    show p: "thenPhiParent if_end = getId b_new' (headerBlock if_new)"
      using h c makeEndIf_thenPhiParent [of NDEBUG False if_new b_end if_end b_end']
      by simp
    show "operands (last (instructions (heap_blocks b_phi' (buildPoint b_phi)))) =
         [IdOperand a, IdOperand (getId b_new' (headerBlock if_new)), IdOperand b,
          IdOperand (elsePhiParent if_end)]"
      using h p createMergePhi_last [of NDEBUG if_end a b b_phi r b_phi'] by simp
  }
qed

theorem thenPhiParent_without_branch_witness:
  "makeBeginElse False False (fst exampleIf) (snd exampleIf) = Inr exampleElse \<and>
   makeEndIf False True (fst exampleElse) (snd exampleElse) = Inr exampleEnd \<and>
   \<not> generatingOpCodeForSpecConst (snd exampleEnd) \<and>
   getId (snd exampleIf) (headerBlock (fst exampleIf)) = 7 \<and>
   thenPhiParent (fst exampleElse) = 7 \<and>
   thenPhiParent (fst exampleEnd) = 7 \<and>
   (\<exists>r builder3.
      createMergePhi False (fst exampleEnd) 5 6 (snd exampleEnd) = Inr (r, builder3) \<and>
      operands (last (instructions (heap_blocks builder3 (buildPoint (snd exampleEnd))))) =
        [IdOperand 5, IdOperand 7, IdOperand 6, IdOperand 10])"
proof -
  have c: "IfBuilder_new 9 0 exampleBuilder 4 0 = (fst exampleIf, snd exampleIf)"
    by (simp add: exampleIf_def)
  have h1: "makeBeginElse False False (fst exampleIf) (snd exampleIf) =
      Inr (fst exampleElse, snd exampleElse)"
    by (simp add: example_defs)
  have h2: "makeEndIf False True (fst exampleElse) (snd exampleElse) =
      Inr (fst exampleEnd, snd exampleEnd)"
    by (simp add: example_defs)
  obtain r builder3 where
    h3: "createMergePhi False (fst exampleEnd) 5 6 (snd exampleEnd) = Inr (r, builder3)"
    by (simp add: example_defs)
  have f: "\<not> generatingOpCodeForSpecConst (snd exampleEnd)"
    by (simp add: example_defs)
  have e: "elsePhiParent (fst exampleEnd) = 10"
    by (simp add: example_defs)
  have i: "getId (snd exampleIf) (headerBlock (fst exampleIf)) = 7"
    by (simp add: example_defs)
  note t = thenPhiParent_without_branch [OF c, where NDEBUG = False
      and this = "fst exampleIf" and builder = "snd exampleIf"
      and this' = "fst exampleElse" and builder' = "snd exampleElse"
      and b_else = "snd exampleIf" and if_else = "fst exampleElse"
      and b_else' = "snd exampleElse" and branchToMerge = True
      and b_end = "snd exampleElse" and if_end = "fst exampleEnd"
      and b_end' = "snd exampleEnd" and a = 5 and b = 6
      and b_phi = "snd exampleEnd" and r = r and b_phi' = builder3]
  from t have a: "thenPhiParent (fst exampleIf) =
      getId (snd exampleIf) (headerBlock (fst exampleIf))"
    by (rule conjunct1)
  from t h1 have b: "thenPhiParent (fst exampleElse) = thenPhiParent (fst exampleIf)"
    by blast
  from t h1 h2 h3 f have d:
    "thenPhiParent (fst exampleEnd) = getId (snd exampleIf) (headerBlock (fst exampleIf)) \<and>
     operands (last (instructions (heap_blocks builder3 (buildPoint (snd exampleEnd))))) =
       [IdOperand 5, IdOperand (getId (snd exampleIf) (headerBlock (fst exampleIf))),
        IdOperand 6, IdOperand (elsePhiParent (fst exampleEnd))]"
    by blast
  have "createMergePhi False (fst exampleEnd) 5 6 (snd exampleEnd) = Inr (r, builder3) \<and>
      operands (last (instructions (heap_blocks builder3 (buildPoint (snd exampleEnd))))) =
        [IdOperand 5, IdOperand 7, IdOperand 6, IdOperand 10]"
    using h3 d i e by simp
  then have x: "\<exists>r builder3.
      createMergePhi False (fst exampleEnd) 5 6 (snd exampleEnd) = Inr (r, builder3) \<and>
      operands (last (instructions (heap_blocks builder3 (buildPoint (snd exampleEnd))))) =
        [IdOperand 5, IdOperand 7, IdOperand 6, IdOperand 10]"
    by blast
  show ?thesis
    using h1 h2 f i a b d x by simp
qed

section \<open>The shape of a structured if\<close>




end
